theory Spec2Isabelle
  imports Complex_Main "HOL-Library.Char_ord" "HOL-Library.List_Lexorder"
    "HOL-Library.Product_Lexorder"
begin

section \<open>Python values and exceptions\<close>

text \<open>
  Every exception the module can raise is a constructor. The module itself only raises
  \<open>RuntimeError\<close>; each \<open>raise\<close> statement of \<open>deepBlue.py\<close> gets a constructor of its
  own, named after what it reports and carrying the server's message where the formatted
  text includes it. The remaining constructors are the exceptions Python raises by itself
  (a missing attribute, an index out of range, a comparison with \<open>None\<close>, ...).
\<close>

datatype error =
    SearchError string            \<comment> \<open>line 135: search status is not "okay"\<close>
  | NoExperiment                  \<comment> \<open>line 109: no experiment for the sample\<close>
  | InfoError string              \<comment> \<open>line 114\<close>
  | NoGenome                      \<comment> \<open>line 120\<close>
  | ChromsError string            \<comment> \<open>line 160\<close>
  | NoChroms                      \<comment> \<open>line 125\<close>
  | InvalidChromosome string      \<comment> \<open>lines 181 and 211\<close>
  | StartNotBeforeEnd int int     \<comment> \<open>lines 187 and 217\<close>
  | SelectError string            \<comment> \<open>lines 222 and 310\<close>
  | NoQueryID                     \<comment> \<open>lines 224 and 312\<close>
  | GetRegionsError string        \<comment> \<open>lines 229 and 324\<close>
  | RequestDataError string       \<comment> \<open>lines 242 and 337\<close>
  | NoIntersectID                 \<comment> \<open>line 319\<close>
  | TypeError
  | IndexError
  | KeyError
  | ValueError
  | AttributeError
  | NameError
  | UnboundLocalError
  | ZeroDivisionError

section \<open>mergeRegions (lines 29-51)\<close>

text \<open>
  A region is \<open>(chrom, start, end)\<close>. The sweep variable \<open>last\<close> is a three-element list
  that starts as \<open>[None, None, None]\<close>, so each of its slots is optional. The returned dict
  is kept as an association list in insertion order (Python dicts keep it); its keys are
  \<open>last[0]\<close> values and its entries are \<open>[last[1], last[2]]\<close> pairs, so both may be
  \<open>None\<close>.
\<close>

type_synonym region = "string \<times> int \<times> int"
type_synonym last_region = "string option \<times> int option \<times> int option"
type_synonym span = "int option \<times> int option"
type_synonym regionset = "(string option \<times> span list) list"

text \<open>\<open>if k not in out: out[k] = list()\<close> followed by \<open>out[k].append(v)\<close>.\<close>

definition dict_append :: "'k \<Rightarrow> 'v \<Rightarrow> ('k \<times> 'v list) list \<Rightarrow> ('k \<times> 'v list) list" where
  "dict_append k v out =
     (if k \<in> fst ` set out
      then map (\<lambda>(k', vs). if k' = k then (k', vs @ [v]) else (k', vs)) out
      else out @ [(k, [v])])"

text \<open>Python truth value of \<open>last[0]\<close>: \<open>None\<close> and the empty string are false.\<close>

fun truthy :: "string option \<Rightarrow> bool" where
  "truthy None = False"
| "truthy (Some s) = (s \<noteq> [])"

text \<open>The \<open>else\<close> branch of the loop body, lines 43-47: flush \<open>last\<close> when \<open>last[0]\<close> is true.\<close>

definition flush :: "last_region \<Rightarrow> regionset \<Rightarrow> regionset" where
  "flush lastreg out =
     (case lastreg of (l0, l1, l2) \<Rightarrow> if truthy l0 then dict_append l0 (l1, l2) out else out)"

text \<open>
  The \<open>for reg in bar\<close> loop. \<open>reg[1] <= last[1]\<close> is only evaluated when
  \<open>reg[0] == last[0]\<close>; comparing an int with \<open>None\<close> raises \<open>TypeError\<close> in Python 3.
\<close>

fun merge_sweep :: "region list \<Rightarrow> last_region \<Rightarrow> regionset \<Rightarrow> error + (last_region \<times> regionset)" where
  "merge_sweep [] lastreg out = Inr (lastreg, out)"
| "merge_sweep ((c, s, e) # bar) (l0, l1, l2) out =
     (if Some c = l0 then
        (case l1 of
           None \<Rightarrow> Inl TypeError
         | Some ls \<Rightarrow>
             if s \<le> ls then merge_sweep bar (l0, l1, Some e) out
             else merge_sweep bar (Some c, Some s, Some e) (flush (l0, l1, l2) out))
      else merge_sweep bar (Some c, Some s, Some e) (flush (l0, l1, l2) out))"

definition mergeRegions :: "region list \<Rightarrow> error + regionset" where
  "mergeRegions regions =
     (case merge_sweep (sort regions) (None, None, None) [] of
        Inl err \<Rightarrow> Inl err
      | Inr ((l0, l1, l2), out) \<Rightarrow> Inr (dict_append l0 (l1, l2) out))"

section \<open>makeTiles (lines 54-67)\<close>

type_synonym tile = "string \<times> int \<times> int"

text \<open>
  The \<open>while start <= v\<close> loop for one chromosome \<open>(k, v)\<close>. It need not end (a chromosome
  of length 0 with no gap never advances), so the loop is a partial function and \<open>None\<close>
  stands for a run that never returns.
\<close>

partial_function (option) tiles_loop ::
  "string \<Rightarrow> int \<Rightarrow> int \<Rightarrow> int \<Rightarrow> int \<Rightarrow> tile list \<Rightarrow> tile list option" where
  "tiles_loop k v binSize distanceBetweenBins start out =
     (if start \<le> v then
        (let end0 = start + binSize;
             end1 = (if end0 > v then v else end0)
         in tiles_loop k v binSize distanceBetweenBins
              (start + (end1 + distanceBetweenBins)) (out @ [(k, start, end1)]))
      else Some out)"

declare tiles_loop.simps [code]

text \<open>The \<open>for (k, v) in db.chromsTuple\<close> loop; \<open>start = 0\<close> for every chromosome.\<close>

fun tiles_chroms :: "(string \<times> int) list \<Rightarrow> int \<Rightarrow> int \<Rightarrow> tile list \<Rightarrow> tile list option" where
  "tiles_chroms [] binSize distanceBetweenBins out = Some out"
| "tiles_chroms ((k, v) # rest) binSize distanceBetweenBins out =
     (case tiles_loop k v binSize distanceBetweenBins 0 out of
        None \<Rightarrow> None
      | Some out' \<Rightarrow> tiles_chroms rest binSize distanceBetweenBins out')"

definition makeTiles :: "(string \<times> int) list \<Rightarrow> int \<Rightarrow> int \<Rightarrow> tile list option" where
  "makeTiles chromsTuple binSize distanceBetweenBins =
     tiles_chroms chromsTuple binSize distanceBetweenBins []"

section \<open>The remote server and the session object\<close>

text \<open>
  Every XML-RPC call returns a pair \<open>(status, payload)\<close>. \<open>Okay p\<close> is a reply whose status
  is the string "okay", with the payload the call documents; \<open>NotOkay msg\<close> is a reply with
  any other status, whose payload is the server's message.
\<close>

datatype 'a response = Okay 'a | NotOkay string

type_synonym pydict = "(string \<times> string) list"

text \<open>
  The server is outside the module, so its replies are parameters. Every field takes the
  arguments the client passes. \<open>info\<close> takes one more: the number of \<open>info\<close> calls the running
  operation has already made, because the state of a request changes between two polls.
  Transport failures of \<open>xmlrpclib\<close> are not modelled.
\<close>

record server =
  srv_search :: "string \<Rightarrow> string \<Rightarrow> string \<Rightarrow> (string \<times> string) list response"
  srv_info :: "string option \<Rightarrow> string \<Rightarrow> nat \<Rightarrow> pydict list response"
  srv_chromosomes :: "string option \<Rightarrow> string \<Rightarrow> (string \<times> int) list response"
  srv_select_experiments ::
    "string \<Rightarrow> string option \<Rightarrow> int option \<Rightarrow> int option \<Rightarrow> string \<Rightarrow> string option response"
  srv_get_regions :: "string \<Rightarrow> string \<Rightarrow> string \<Rightarrow> string response"
  srv_get_request_data :: "string \<Rightarrow> string \<Rightarrow> string response"
  srv_input_regions :: "string option \<Rightarrow> string \<Rightarrow> string \<Rightarrow> string response"
  srv_intersection :: "string \<Rightarrow> string \<Rightarrow> string \<Rightarrow> string option response"

text \<open>The attributes \<open>__init__\<close> sets (lines 96-104), \<open>self.server\<close> apart.\<close>

record session =
  sample :: string
  url :: string
  userKey :: string
  info :: "pydict option"
  experimentID :: "string option"
  genome :: "string option"
  chromsDict :: "(string \<rightharpoonup> int) option"
  chromsTuple :: "(string \<times> int) list option"

text \<open>
  \<open>getEID\<close> (lines 127-140): the first reply entry whose name \<open>resp[1]\<close> equals the sample
  is taken, its id \<open>resp[0]\<close> stored and returned; \<open>None\<close> when no entry matches.
\<close>

definition getEID :: "server \<Rightarrow> session \<Rightarrow> error + (string option \<times> session)" where
  "getEID srv self =
     (case srv_search srv (sample self) ''experiments'' (userKey self) of
        NotOkay resps \<Rightarrow> Inl (SearchError resps)
      | Okay resps \<Rightarrow>
          (case find (\<lambda>resp. snd resp = sample self) resps of
             Some resp \<Rightarrow> Inr (Some (fst resp), self\<lparr>experimentID := Some (fst resp)\<rparr>)
           | None \<Rightarrow> Inr (None, self)))"

text \<open>\<open>getGenome\<close> (lines 142-150); \<open>self.info\<close> being \<open>None\<close> has no \<open>keys\<close>.\<close>

definition getGenome :: "session \<Rightarrow> error + (string option \<times> session)" where
  "getGenome self =
     (case info self of
        None \<Rightarrow> Inl AttributeError
      | Some i \<Rightarrow>
          (case map_of i ''genome'' of
             Some g \<Rightarrow> Inr (Some g, self\<lparr>genome := Some g\<rparr>)
           | None \<Rightarrow> Inr (genome self, self)))"

text \<open>
  \<open>getChroms\<close> (lines 152-163). The dict comprehension keeps the last length given for a
  name; \<open>map_of\<close> finds the first pair, hence the \<open>rev\<close>.
\<close>

definition getChroms :: "server \<Rightarrow> session \<Rightarrow> error + ((string \<times> int) list \<times> session)" where
  "getChroms srv self =
     (case srv_chromosomes srv (genome self) (userKey self) of
        NotOkay resp \<Rightarrow> Inl (ChromsError resp)
      | Okay resp \<Rightarrow>
          Inr (resp, self\<lparr>chromsDict := Some (map_of (rev resp)), chromsTuple := Some resp\<rparr>))"

text \<open>\<open>deepBlue.__init__\<close> (lines 88-125).\<close>

definition deepBlue_init :: "server \<Rightarrow> string \<Rightarrow> string \<Rightarrow> string \<Rightarrow> error + session" where
  "deepBlue_init srv sample0 url0 userKey0 =
     (case getEID srv \<lparr>sample = sample0, url = url0, userKey = userKey0, info = None,
                       experimentID = None, genome = None, chromsDict = None,
                       chromsTuple = None\<rparr> of
        Inl err \<Rightarrow> Inl err
      | Inr (eid, self1) \<Rightarrow>
          if \<not> truthy eid then Inl NoExperiment
          else
            (case srv_info srv (experimentID self1) userKey0 0 of
               NotOkay resp \<Rightarrow> Inl (InfoError resp)
             | Okay [] \<Rightarrow> Inl IndexError
             | Okay (i # _) \<Rightarrow>
                 (case getGenome (self1\<lparr>info := Some i\<rparr>) of
                    Inl err \<Rightarrow> Inl err
                  | Inr (g, self2) \<Rightarrow>
                      if \<not> truthy g then Inl NoGenome
                      else
                        (case getChroms srv self2 of
                           Inl err \<Rightarrow> Inl err
                         | Inr (chroms, self3) \<Rightarrow>
                             if chroms = [] then Inl NoChroms else Inr self3))))"

text \<open>\<open>chroms\<close> (lines 165-173). \<open>chrom in self.chromsDict\<close> raises when the dict is \<open>None\<close>.\<close>

datatype chroms_result = ChromsDict "string \<rightharpoonup> int" | ChromLength int | PyNone

definition chroms :: "session \<Rightarrow> string option \<Rightarrow> error + chroms_result" where
  "chroms self chrom =
     (case chrom of
        None \<Rightarrow> (case chromsDict self of None \<Rightarrow> Inr PyNone | Some d \<Rightarrow> Inr (ChromsDict d))
      | Some c \<Rightarrow>
          (case chromsDict self of
             None \<Rightarrow> Inl TypeError
           | Some d \<Rightarrow> (case d c of Some len \<Rightarrow> Inr (ChromLength len) | None \<Rightarrow> Inr PyNone)))"

section \<open>The query protocol: intervals (lines 206-250)\<close>

text \<open>
  A float is either NaN, the no-data sentinel, or a number. What the module does with a
  float is store it, test it for NaN and hand it to numpy; its arithmetic is numpy's.
\<close>

datatype pyfloat = NaN | Num real

fun isnan :: "pyfloat \<Rightarrow> bool" where
  "isnan NaN = True"
| "isnan (Num x) = False"

type_synonym interval = "int \<times> int \<times> pyfloat"

text \<open>
  The built-ins \<open>int\<close> and \<open>float\<close> on a string, and \<open>numpy.average\<close>, are not code of the
  module: they are parameters. A conversion that raises \<open>ValueError\<close> returns \<open>None\<close>.
\<close>

record pylib =
  py_int :: "string \<Rightarrow> int option"
  py_float :: "string \<Rightarrow> pyfloat option"
  np_average :: "pyfloat list \<Rightarrow> int list \<Rightarrow> error + pyfloat"

text \<open>\<open>str.split(sep)\<close> for a one-character separator: at least one piece, pieces may be empty.\<close>

fun split_on :: "char \<Rightarrow> string \<Rightarrow> string list" where
  "split_on sep [] = [[]]"
| "split_on sep (c # cs) =
     (if c = sep then [] # split_on sep cs
      else (case split_on sep cs of [] \<Rightarrow> [[c]] | x # xs \<Rightarrow> (c # x) # xs))"

text \<open>
  \<open>info[0]["state"]\<close> on the payload of an \<open>info\<close> reply, whose status the polling loop never
  looks at: an empty list or an empty message has no element 0, a dict without the key
  raises \<open>KeyError\<close>, and a character of a message cannot be indexed by a string.
\<close>

fun request_state :: "pydict list response \<Rightarrow> error + string" where
  "request_state (Okay []) = Inl IndexError"
| "request_state (Okay (d # _)) =
     (case map_of d ''state'' of None \<Rightarrow> Inl KeyError | Some st \<Rightarrow> Inr st)"
| "request_state (NotOkay msg) = (if msg = [] then Inl IndexError else Inl TypeError)"

text \<open>
  The polling loop (lines 232-237 and 327-332), from the \<open>n\<close>-th \<open>info\<close> call on. It returns
  the number of \<open>time.sleep(0.1)\<close> calls made and the final state. A request that never
  reaches "done" or "failed" keeps the loop running for ever: \<open>None\<close>.
\<close>

partial_function (option) poll ::
  "server \<Rightarrow> string \<Rightarrow> string \<Rightarrow> nat \<Rightarrow> (error + nat \<times> string) option" where
  "poll srv reqID key n =
     (case request_state (srv_info srv (Some reqID) key n) of
        Inl err \<Rightarrow> Some (Inl err)
      | Inr request_status \<Rightarrow>
          if request_status \<noteq> ''done'' \<and> request_status \<noteq> ''failed''
          then poll srv reqID key (Suc n)
          else Some (Inr (n, request_status)))"

declare poll.simps [code]

text \<open>Lines 244-250: one tuple per record of the payload, records with an empty first field skipped.\<close>

fun parse_intervals :: "pylib \<Rightarrow> string list \<Rightarrow> interval list \<Rightarrow> error + interval list" where
  "parse_intervals lib [] out = Inr out"
| "parse_intervals lib (line # rest) out =
     (case split_on (CHR 0x09) line of
        [] \<Rightarrow> Inl IndexError
      | f0 # fs \<Rightarrow>
          if f0 = [] then parse_intervals lib rest out
          else
            (case py_int lib f0 of
               None \<Rightarrow> Inl ValueError
             | Some a \<Rightarrow>
                 (case fs of
                    [] \<Rightarrow> Inl IndexError
                  | f1 # fs' \<Rightarrow>
                      (case py_int lib f1 of
                         None \<Rightarrow> Inl ValueError
                       | Some b \<Rightarrow>
                           (case fs' of
                              [] \<Rightarrow> Inl IndexError
                            | f2 # _ \<Rightarrow>
                                (case py_float lib f2 of
                                   None \<Rightarrow> Inl ValueError
                                 | Some v \<Rightarrow> parse_intervals lib rest (out @ [(a, b, v)])))))))"

text \<open>Lines 219-250, once chromosome and range have been checked.\<close>

definition fetch_intervals ::
  "pylib \<Rightarrow> server \<Rightarrow> session \<Rightarrow> string \<Rightarrow> int \<Rightarrow> int \<Rightarrow> (error + interval list) option" where
  "fetch_intervals lib srv self chrom start end1 =
     (case srv_select_experiments srv (sample self) (Some chrom) (Some start) (Some end1)
             (userKey self) of
        NotOkay queryID \<Rightarrow> Some (Inl (SelectError queryID))
      | Okay None \<Rightarrow> Some (Inl NoQueryID)
      | Okay (Some qid) \<Rightarrow>
          if qid = [] then Some (Inl NoQueryID)
          else
            (case srv_get_regions srv qid ''START,END,VALUE'' (userKey self) of
               NotOkay reqID \<Rightarrow> Some (Inl (GetRegionsError reqID))
             | Okay reqID \<Rightarrow>
                 (case poll srv reqID (userKey self) 0 of
                    None \<Rightarrow> None
                  | Some (Inl err) \<Rightarrow> Some (Inl err)
                  | Some (Inr _) \<Rightarrow>
                      (case srv_get_request_data srv reqID (userKey self) of
                         NotOkay resp \<Rightarrow> Some (Inl (RequestDataError resp))
                       | Okay resp \<Rightarrow>
                           Some (parse_intervals lib (split_on (CHR 0x0A) resp) [])))))"

text \<open>
  The checks both \<open>values\<close> and \<open>intervals\<close> start with (lines 180-187 and 210-217). They
  return the end to use: the chromosome's length when \<open>end == 0\<close>.
\<close>

definition check_range :: "session \<Rightarrow> string \<Rightarrow> int \<Rightarrow> int \<Rightarrow> error + int" where
  "check_range self chrom start end0 =
     (case chromsDict self of
        None \<Rightarrow> Inl TypeError
      | Some d \<Rightarrow>
          (case d chrom of
             None \<Rightarrow> Inl (InvalidChromosome chrom)
           | Some len \<Rightarrow>
               (let end1 = (if end0 = 0 then len else end0)
                in if start \<ge> end1 then Inl (StartNotBeforeEnd start end1) else Inr end1)))"

definition intervals ::
  "pylib \<Rightarrow> server \<Rightarrow> session \<Rightarrow> string \<Rightarrow> int \<Rightarrow> int \<Rightarrow> (error + interval list) option" where
  "intervals lib srv self chrom start end0 =
     (case check_range self chrom start end0 of
        Inl err \<Rightarrow> Some (Inl err)
      | Inr end1 \<Rightarrow> fetch_intervals lib srv self chrom start end1)"

section \<open>values (lines 175-204)\<close>

text \<open>
  \<open>o[s:e] = v\<close> on a one-dimensional numpy array: a negative bound counts from the end,
  both bounds are clamped to the array, and an empty slice changes nothing.
\<close>

definition slice_bound :: "int \<Rightarrow> int \<Rightarrow> int" where
  "slice_bound n i = (if i < 0 then max (i + n) 0 else min i n)"

definition slice_assign :: "'a list \<Rightarrow> int \<Rightarrow> int \<Rightarrow> 'a \<Rightarrow> 'a list" where
  "slice_assign o1 s e v =
     (let s' = slice_bound (int (length o1)) s;
          e' = slice_bound (int (length o1)) e
      in if s' < e' then take (nat s') o1 @ replicate (nat (e' - s')) v @ drop (nat e') o1
         else o1)"

text \<open>The \<open>for interval in intervals\<close> loop, lines 194-202.\<close>

fun values_fill :: "interval list \<Rightarrow> int \<Rightarrow> int \<Rightarrow> pyfloat list \<Rightarrow> pyfloat list" where
  "values_fill [] start end1 o1 = o1"
| "values_fill ((i0, i1, v) # rest) start end1 o1 =
     (let s0 = i0 - start;
          e0 = s0 + i1 - i0;
          s = (if s0 < 0 then 0 else s0);
          e = (if e0 \<ge> end1 - start then end1 - start else e0)
      in values_fill rest start end1 (if e > s then slice_assign o1 s e v else o1))"

text \<open>Lines 191-204: the array \<open>np.empty(end - start)\<close> set to NaN, then filled.\<close>

definition rasterize :: "interval list \<Rightarrow> int \<Rightarrow> int \<Rightarrow> pyfloat list" where
  "rasterize ivs start end1 = values_fill ivs start end1 (replicate (nat (end1 - start)) NaN)"

definition "values" ::
  "pylib \<Rightarrow> server \<Rightarrow> session \<Rightarrow> string \<Rightarrow> int \<Rightarrow> int \<Rightarrow> (error + pyfloat list) option" where
  "values lib srv self chrom start end0 =
     (case check_range self chrom start end0 of
        Inl err \<Rightarrow> Some (Inl err)
      | Inr end1 \<Rightarrow>
          (case intervals lib srv self chrom start end1 of
             None \<Rightarrow> None
           | Some (Inl err) \<Rightarrow> Some (Inl err)
           | Some (Inr ivs) \<Rightarrow> Some (Inr (rasterize ivs start end1))))"

section \<open>stats (lines 252-270)\<close>

text \<open>
  \<open>np.isnan(ints)\<close> turns the list of \<open>(start, end, value)\<close> tuples into an array with three
  columns and tests every element, the two coordinates included; a coordinate is an int,
  and an int turned into a float is a number. \<open>np.all\<close> asks for every element.
\<close>

definition np_isnan_rows :: "interval list \<Rightarrow> bool list" where
  "np_isnan_rows ints =
     concat (map (\<lambda>(s, e, v). [isnan (Num (of_int s)), isnan (Num (of_int e)), isnan v]) ints)"

definition np_all :: "bool list \<Rightarrow> bool" where
  "np_all bs = list_all (\<lambda>b. b) bs"

text \<open>Lines 261-268: the weight of an interval is its length, clipped to a bound that is set.\<close>

fun stats_weights :: "interval list \<Rightarrow> int \<Rightarrow> int \<Rightarrow> int list" where
  "stats_weights [] start end0 = []"
| "stats_weights ((x0, x1, x2) # rest) start end0 =
     (let s = (if start > 0 \<and> x0 < start then start else x0);
          e = (if end0 > 0 \<and> x1 > end0 then end0 else x1)
      in (e - s) # stats_weights rest start end0)"

text \<open>Lines 257-270 on the list \<open>ints\<close>; the result \<open>None\<close> is Python's \<open>None\<close>.\<close>

definition stats_of :: "pylib \<Rightarrow> interval list \<Rightarrow> int \<Rightarrow> int \<Rightarrow> error + pyfloat list option" where
  "stats_of lib ints start end0 =
     (if length ints = 0 \<or> np_all (np_isnan_rows ints) then Inr None
      else
        (case np_average lib (map (\<lambda>x. snd (snd x)) ints) (stats_weights ints start end0) of
           Inl err \<Rightarrow> Inl err
         | Inr rv \<Rightarrow> Inr (Some [rv])))"

definition stats ::
  "pylib \<Rightarrow> server \<Rightarrow> session \<Rightarrow> string \<Rightarrow> int \<Rightarrow> int \<Rightarrow> (error + pyfloat list option) option" where
  "stats lib srv self chrom start end0 =
     (case intervals lib srv self chrom start end0 of
        None \<Rightarrow> None
      | Some (Inl err) \<Rightarrow> Some (Inl err)
      | Some (Inr ints) \<Rightarrow> Some (stats_of lib ints start end0))"

section \<open>preload (lines 275-346)\<close>

text \<open>
  The bigWig writer is \<open>pyBigWig\<close>'s; the model records the calls made on it, in order.
  Errors \<open>pyBigWig\<close> itself may raise are not modelled.
\<close>

datatype bw_event =
    BwOpen string
  | BwAddHeader "(string \<times> int) list option"
  | BwAddEntries string int int pyfloat
  | BwClose

text \<open>Whether the writer is open after the calls of a log: opened and not closed since.\<close>

fun writer_open_after :: "bool \<Rightarrow> bw_event list \<Rightarrow> bool" where
  "writer_open_after st [] = st"
| "writer_open_after st (BwOpen f # evs) = writer_open_after True evs"
| "writer_open_after st (BwClose # evs) = writer_open_after False evs"
| "writer_open_after st (_ # evs) = writer_open_after st evs"

definition writer_open :: "bw_event list \<Rightarrow> bool" where
  "writer_open evs = writer_open_after False evs"



text \<open>Lines 339-343: one \<open>addEntries\<close> call per record with a non-empty first field.\<close>

fun add_entries :: "pylib \<Rightarrow> string list \<Rightarrow> bw_event list \<Rightarrow> (error + unit) \<times> bw_event list" where
  "add_entries lib [] evs = (Inr (), evs)"
| "add_entries lib (line # rest) evs =
     (case split_on (CHR 0x09) line of
        [] \<Rightarrow> (Inl IndexError, evs)
      | f0 # fs \<Rightarrow>
          if f0 = [] then add_entries lib rest evs
          else
            (case fs of
               [] \<Rightarrow> (Inl IndexError, evs)
             | f1 # fs' \<Rightarrow>
                 (case py_int lib f1 of
                    None \<Rightarrow> (Inl ValueError, evs)
                  | Some a \<Rightarrow>
                      (case fs' of
                         [] \<Rightarrow> (Inl IndexError, evs)
                       | f2 # fs'' \<Rightarrow>
                           (case py_int lib f2 of
                              None \<Rightarrow> (Inl ValueError, evs)
                            | Some b \<Rightarrow>
                                (case fs'' of
                                   [] \<Rightarrow> (Inl IndexError, evs)
                                 | f3 # _ \<Rightarrow>
                                     (case py_float lib f3 of
                                        None \<Rightarrow> (Inl ValueError, evs)
                                      | Some v \<Rightarrow>
                                          add_entries lib rest
                                            (evs @ [BwAddEntries f0 a b v]))))))))"

text \<open>
  Lines 307-346, with the writer already open: \<open>evs\<close> holds the calls made on it so far.
  The message of line 317 names \<open>intersectionID\<close>, which is defined nowhere.
\<close>

definition preload_write ::
  "pylib \<Rightarrow> server \<Rightarrow> session \<Rightarrow> string \<Rightarrow> string \<Rightarrow> bw_event list \<Rightarrow>
     ((error + string) \<times> bw_event list) option" where
  "preload_write lib srv self fname regionsID evs =
     (case srv_select_experiments srv (sample self) None None None (userKey self) of
        NotOkay queryID \<Rightarrow> Some (Inl (SelectError queryID), evs)
      | Okay None \<Rightarrow> Some (Inl NoQueryID, evs)
      | Okay (Some qid) \<Rightarrow>
          if qid = [] then Some (Inl NoQueryID, evs)
          else
            (case srv_intersection srv qid regionsID (userKey self) of
               NotOkay _ \<Rightarrow> Some (Inl NameError, evs)
             | Okay None \<Rightarrow> Some (Inl NoIntersectID, evs)
             | Okay (Some iid) \<Rightarrow>
                 if iid = [] then Some (Inl NoIntersectID, evs)
                 else
                   (case srv_get_regions srv iid ''CHROM,START,END,VALUE'' (userKey self) of
                      NotOkay reqID \<Rightarrow> Some (Inl (GetRegionsError reqID), evs)
                    | Okay reqID \<Rightarrow>
                        (case poll srv reqID (userKey self) 0 of
                           None \<Rightarrow> None
                         | Some (Inl err) \<Rightarrow> Some (Inl err, evs)
                         | Some (Inr _) \<Rightarrow>
                             (case srv_get_request_data srv reqID (userKey self) of
                                NotOkay resp \<Rightarrow> Some (Inl (RequestDataError resp), evs)
                              | Okay resp \<Rightarrow>
                                  (case add_entries lib (split_on (CHR 0x0A) resp) evs of
                                     (Inl err, evs') \<Rightarrow> Some (Inl err, evs')
                                   | (Inr _, evs') \<Rightarrow> Some (Inr fname, evs' @ [BwClose])))))))"

text \<open>
  Lines 293-346, given the string of regions. The message of line 296 reads the local
  \<open>resp\<close> before it is assigned. \<open>fname\<close> is the name \<open>tempfile\<close> gives.
\<close>

definition preload_send ::
  "pylib \<Rightarrow> server \<Rightarrow> session \<Rightarrow> string \<Rightarrow> string \<Rightarrow> ((error + string) \<times> bw_event list) option" where
  "preload_send lib srv self fname regionsStr =
     (case srv_input_regions srv (genome self) regionsStr (userKey self) of
        NotOkay _ \<Rightarrow> Some (Inl UnboundLocalError, [])
      | Okay regionsID \<Rightarrow>
          preload_write lib srv self fname regionsID
            [BwOpen fname, BwAddHeader (chromsTuple self)])"


section \<open>Properties of a merged region set, as the specification words them\<close>

text \<open>
  One span lies before another when it ends at or before the other's start (spans are
  half-open). A region set is sorted and non-overlapping when, under every key, each span
  lies before all later ones.
\<close>

fun span_before :: "span \<Rightarrow> span \<Rightarrow> bool" where
  "span_before (_, Some e) (Some s, _) = (e \<le> s)"
| "span_before _ _ = False"

definition nonoverlapping :: "regionset \<Rightarrow> bool" where
  "nonoverlapping out = list_all (\<lambda>(k, spans). sorted_wrt span_before spans) out"

section \<open>The dense array, as the specification words it\<close>

text \<open>
  An interval clipped to the window \<open>[start, end)\<close> covers a position of the window when
  the position lies between the clipped bounds; an interval whose clipped span is empty
  covers nothing. The slot of a position holds the value of the last interval, in input
  order, that covers it, and the sentinel when none does.
\<close>

definition covers :: "interval \<Rightarrow> int \<Rightarrow> int \<Rightarrow> int \<Rightarrow> bool" where
  "covers iv start end1 p = (case iv of (a, b, v) \<Rightarrow> max a start \<le> p \<and> p < min b end1)"

definition last_covering :: "interval list \<Rightarrow> int \<Rightarrow> int \<Rightarrow> int \<Rightarrow> interval option" where
  "last_covering ivs start end1 p = find (\<lambda>iv. covers iv start end1 p) (rev ivs)"

definition rasterize_spec :: "interval list \<Rightarrow> int \<Rightarrow> int \<Rightarrow> pyfloat list" where
  "rasterize_spec ivs start end1 =
     map (\<lambda>i. case last_covering ivs start end1 (start + int i) of
                 None \<Rightarrow> NaN
               | Some (a, b, v) \<Rightarrow> v)
       [0..<nat (end1 - start)]"

section \<open>Concrete libraries, servers and sessions for the examples\<close>

text \<open>
  A library for the examples. Its \<open>int\<close> reads a non-empty string of decimal digits, on
  which it agrees with Python's; its \<open>float\<close> reads the same strings and "nan"; every other
  string is refused, which the examples never ask for. Its average is the weighted mean
  over the reals, NaN as soon as a value is NaN, and numpy's error when the weights sum
  to zero.
\<close>

text \<open>The value of a decimal digit: its place in the string of the ten digits.\<close>

definition digit_of :: "char \<Rightarrow> int option" where
  "digit_of c = map_of (zip ''0123456789'' [0, 1, 2, 3, 4, 5, 6, 7, 8, 9]) c"

fun digits_value :: "string \<Rightarrow> int \<Rightarrow> int option" where
  "digits_value [] acc = Some acc"
| "digits_value (c # cs) acc =
     (case digit_of c of None \<Rightarrow> None | Some d \<Rightarrow> digits_value cs (10 * acc + d))"

definition digits_int :: "string \<Rightarrow> int option" where
  "digits_int s = (if s = [] then None else digits_value s 0)"

definition digits_float :: "string \<Rightarrow> pyfloat option" where
  "digits_float s =
     (if s = ''nan'' then Some NaN
      else (case digits_int s of None \<Rightarrow> None | Some n \<Rightarrow> Some (Num (of_int n))))"

fun weighted_sum :: "pyfloat list \<Rightarrow> int list \<Rightarrow> pyfloat" where
  "weighted_sum (NaN # vs) (w # ws) = NaN"
| "weighted_sum (Num x # vs) (w # ws) =
     (case weighted_sum vs ws of NaN \<Rightarrow> NaN | Num y \<Rightarrow> Num (x * of_int w + y))"
| "weighted_sum _ _ = Num 0"

definition real_average :: "pyfloat list \<Rightarrow> int list \<Rightarrow> error + pyfloat" where
  "real_average vals ws =
     (if sum_list ws = 0 then Inl ZeroDivisionError
      else (case weighted_sum vals ws of
              NaN \<Rightarrow> Inr NaN
            | Num t \<Rightarrow> Inr (Num (t / of_int (sum_list ws)))))"

definition example_lib :: pylib where
  "example_lib = \<lparr>py_int = digits_int, py_float = digits_float, np_average = real_average\<rparr>"

text \<open>
  A server that knows the sample "s1" twice, as experiments "e1" and "e2" of genome "g1"
  with one chromosome "chr1" of length 1000. Every selection is query "q1", every
  retrieval is request "r1", which is done at the first poll and whose payload is the one
  record \<open>10 20 5\<close>, tab-separated.
\<close>

definition example_payload :: string where
  "example_payload = ''10'' @ [CHR 0x09] @ ''20'' @ [CHR 0x09] @ ''5''"

definition example_server :: server where
  "example_server =
     \<lparr>srv_search = (\<lambda>name kind key. Okay [(''e1'', ''s1''), (''e2'', ''s1'')]),
      srv_info = (\<lambda>ident key n.
         if ident = Some ''r1'' then Okay [[(''state'', ''done'')]]
         else Okay [[(''genome'', ''g1'')]]),
      srv_chromosomes = (\<lambda>g key. Okay [(''chr1'', 1000)]),
      srv_select_experiments = (\<lambda>name chrom start end1 key. Okay (Some ''q1'')),
      srv_get_regions = (\<lambda>q fields key. Okay ''r1''),
      srv_get_request_data = (\<lambda>r key. Okay example_payload),
      srv_input_regions = (\<lambda>g regions key. Okay ''i1''),
      srv_intersection = (\<lambda>q i key. Okay (Some ''x1''))\<rparr>"

text \<open>The session \<open>__init__\<close> builds against that server for the sample "s1".\<close>

definition example_session :: session where
  "example_session =
     \<lparr>sample = ''s1'', url = ''u'', userKey = ''k'', info = Some [(''genome'', ''g1'')],
      experimentID = Some ''e1'', genome = Some ''g1'',
      chromsDict = Some (map_of (rev [(''chr1'', 1000)])),
      chromsTuple = Some [(''chr1'', 1000)]\<rparr>"

text \<open>The same server when no experiment is called "s1".\<close>

definition nomatch_server :: server where
  "nomatch_server =
     example_server\<lparr>srv_search := (\<lambda>name kind key. Okay [(''e3'', ''s10''), (''e4'', ''s2'')])\<rparr>"

text \<open>
  The same server when request "r1" is reported as running twice and as failed at the
  third poll, the payload still being served with status "okay".
\<close>

definition failed_okay_server :: server where
  "failed_okay_server =
     example_server\<lparr>srv_info := (\<lambda>ident key n.
        if ident = Some ''r1''
        then Okay [[(''state'', if n < 2 then ''running'' else ''failed'')]]
        else Okay [[(''genome'', ''g1'')]])\<rparr>"

text \<open>The same again, the payload request now answered with an error message.\<close>

definition failed_error_server :: server where
  "failed_error_server =
     failed_okay_server\<lparr>srv_get_request_data := (\<lambda>r key. NotOkay ''request failed'')\<rparr>"

section \<open>Theorems\<close>

subsection \<open>Supporting lemmas\<close>



subsection \<open>mergeRegions\<close>

text \<open>
  C1. The claim: the sweep extends the open interval whenever the next region of the same
  chromosome starts at or before the open interval's end, so that merging
  \<open>[("chr1",0,100), ("chr1",50,150)]\<close> gives the single region \<open>("chr1",0,150)\<close>.
  The code compares the next start with \<open>last[1]\<close>, the open interval's start, not with its
  end \<open>last[2]\<close>: on this input the second region starts after 0, is not merged, and the
  result holds both regions unchanged.
\<close>

theorem mergeRegions_keeps_overlapping_regions_apart:
  "mergeRegions [(''chr1'', 0, 100), (''chr1'', 50, 150)] =
     Inr [(Some ''chr1'', [(Some 0, Some 100), (Some 50, Some 150)])]"
  by (simp add: mergeRegions_def flush_def dict_append_def)

text \<open>
  C2. The claim: under every chromosome the returned spans are sorted and pairwise
  non-overlapping (with the union of spans kept and re-merging a no-op). On the input of
  C1 the code returns, under "chr1", the span 0-100 followed by the span 50-150, which
  overlap: the returned region set is not non-overlapping.
\<close>

theorem mergeRegions_output_overlaps:
  "\<exists>out. mergeRegions [(''chr1'', 0, 100), (''chr1'', 50, 150)] = Inr out \<and> \<not> nonoverlapping out"
  by (simp add: mergeRegions_def flush_def dict_append_def nonoverlapping_def)

text \<open>
  C5. The claim as stated (an empty sequence of regions fails with InvalidArgument and
  returns nothing) does not hold: the loop is skipped and the final flush of lines 48-50
  runs on the initial \<open>last\<close>, so a value is returned.
\<close>

theorem mergeRegions_empty_counterexample:
  "mergeRegions [] = Inr [(None, [(None, None)])]"
  by (simp add: mergeRegions_def dict_append_def)

text \<open>
  C5, amended. Applying mergeRegions to an empty sequence of regions does not fail: it
  returns a mapping, and that mapping has no entry under any chromosome name.
\<close>

theorem mergeRegions_empty_returns_no_chromosome:
  "\<exists>out. mergeRegions [] = Inr out \<and> (\<forall>c. map_of out (Some c) = None)"
  by (simp add: mergeRegions_def dict_append_def)

subsection \<open>makeTiles\<close>

text \<open>
  C3. The claim: the window start advances by exactly \<open>binSize + gap\<close>, so that
  \<open>binSize = 1000\<close>, \<open>gap = 0\<close> over one chromosome of length 2500 gives the tiles
  0-1000, 1000-2000 and 2000-2500. Line 66 adds \<open>end + gap\<close> to the start instead: after
  the second tile the start is 1000 + 2000 = 3000, past the chromosome, and the third tile
  is never emitted.
\<close>

theorem makeTiles_skips_last_tile:
  "makeTiles [(''chr1'', 2500)] 1000 0 = Some [(''chr1'', 0, 1000), (''chr1'', 1000, 2000)]"
  by (simp add: makeTiles_def tiles_loop.simps)

subsection \<open>stats\<close>

text \<open>
  C6. The claim: stats returns None when the interval list is empty or every interval's
  value is NaN. The NaN test of line 257 is applied to the whole tuples, coordinates
  included, so it never holds for a non-empty list: for the single interval (0, 10, NaN)
  the code goes on to \<open>np.average\<close> and returns a one-element list (or raises), never None.
\<close>

theorem stats_all_nan_is_averaged:
  "stats_of lib [(0, 10, NaN)] 0 10 =
     (case np_average lib [NaN] [10] of Inl err \<Rightarrow> Inl err | Inr rv \<Rightarrow> Inr (Some [rv]))"
  by (simp add: stats_of_def np_all_def np_isnan_rows_def)

subsection \<open>preload\<close>




text \<open>
  The statements from line 293 on, had they been reached, close the writer only at the
  end of the success path: a failing \<open>select_experiments\<close> call raises at line 310 with the
  writer open.
\<close>

lemma preload_send_select_failure_leaves_writer_open:
  assumes "srv_input_regions srv (genome self) regionsStr (userKey self) = Okay regionsID"
    and "srv_select_experiments srv (sample self) None None None (userKey self) = NotOkay msg"
  shows "\<exists>evs. preload_send lib srv self fname regionsStr = Some (Inl (SelectError msg), evs)
           \<and> writer_open evs"
  using assms by (simp add: preload_send_def preload_write_def writer_open_def)

subsection \<open>values\<close>

text \<open>Slice assignment inside the array writes exactly the slots of the slice.\<close>

lemma length_slice_assign: "length (slice_assign o1 s e v) = length o1"
  by (auto simp: slice_assign_def slice_bound_def Let_def)

lemma nth_take_replicate_drop:
  fixes a b i :: nat
  assumes "a \<le> b" "b \<le> length xs" "i < length xs"
  shows "(take a xs @ replicate (b - a) v @ drop b xs) ! i = (if a \<le> i \<and> i < b then v else xs ! i)"
proof -
  have la: "length (take a xs) = a" using assms by simp
  show ?thesis
  proof (cases "i < a")
    case True
    then show ?thesis using assms by (simp add: nth_append)
  next
    case False
    note na = this
    show ?thesis
    proof (cases "i < b")
      case True
      then have "i - a < b - a" using na by arith
      then show ?thesis using na True assms by (simp add: nth_append)
    next
      case False
      then have d: "\<not> i - a < b - a" using na by arith
      have e: "b + (i - a - (b - a)) = i" using na False assms by arith
      have "(take a xs @ replicate (b - a) v @ drop b xs) ! i = drop b xs ! (i - a - (b - a))"
        using na d assms by (simp add: nth_append)
      also have "\<dots> = xs ! (b + (i - a - (b - a)))"
        using assms by (simp only: nth_drop)
      also have "\<dots> = xs ! i" by (simp only: e)
      finally show ?thesis using False by simp
    qed
  qed
qed

lemma nth_slice_assign:
  assumes "0 \<le> s" "s < e" "e \<le> int (length o1)" "i < length o1"
  shows "slice_assign o1 s e v ! i = (if s \<le> int i \<and> int i < e then v else o1 ! i)"
proof -
  have b: "slice_bound (int (length o1)) s = s" "slice_bound (int (length o1)) e = e"
    using assms by (simp_all add: slice_bound_def)
  have d: "nat (e - s) = nat e - nat s"
    using assms by simp
  have sa: "slice_assign o1 s e v = take (nat s) o1 @ replicate (nat e - nat s) v @ drop (nat e) o1"
    using assms by (simp add: slice_assign_def b d)
  have c: "(nat s \<le> i \<and> i < nat e) = (s \<le> int i \<and> int i < e)"
    using assms by linarith
  have "nat s \<le> nat e" "nat e \<le> length o1"
    using assms by simp_all
  from nth_take_replicate_drop [OF this assms(4), of v] show ?thesis
    by (simp only: sa c)
qed

lemma find_snoc:
  "find P (xs @ [x]) = (case find P xs of None \<Rightarrow> (if P x then Some x else None) | Some y \<Rightarrow> Some y)"
  by (induction xs) auto

lemma length_values_fill: "length (values_fill ivs start end1 o1) = length o1"
  by (induction ivs start end1 o1 rule: values_fill.induct)
     (simp_all add: Let_def length_slice_assign)

lemma nth_values_fill:
  "length o1 = nat (end1 - start) \<Longrightarrow> i < length o1 \<Longrightarrow>
   values_fill ivs start end1 o1 ! i =
     (case last_covering ivs start end1 (start + int i) of
        None \<Rightarrow> o1 ! i
      | Some (a, b, v) \<Rightarrow> v)"
proof (induction ivs arbitrary: o1)
  case Nil
  then show ?case by (simp add: last_covering_def)
next
  case (Cons iv ivs)
  obtain a b v where iv: "iv = (a, b, v)" by (cases iv)
  define s where "s = (if a - start < 0 then 0 else a - start)"
  define e where "e = (if a - start + b - a \<ge> end1 - start then end1 - start else a - start + b - a)"
  define o2 where "o2 = (if e > s then slice_assign o1 s e v else o1)"
  have step: "values_fill (iv # ivs) start end1 o1 = values_fill ivs start end1 o2"
    by (simp add: iv s_def e_def o2_def Let_def)
  have len: "length o2 = nat (end1 - start)" "i < length o2"
    using Cons.prems by (simp_all add: o2_def length_slice_assign)
  have cov: "covers iv start end1 (start + int i) \<longleftrightarrow> (s \<le> int i \<and> int i < e)"
    using Cons.prems by (auto simp: covers_def iv s_def e_def)
  have o2i: "o2 ! i = (if covers iv start end1 (start + int i) then v else o1 ! i)"
  proof (cases "e > s")
    case True
    have "0 \<le> s" "e \<le> int (length o1)"
      using Cons.prems True by (auto simp: s_def e_def split: if_splits)
    then show ?thesis
      using True Cons.prems nth_slice_assign [of s e o1 i v] by (simp add: o2_def cov)
  next
    case False
    then show ?thesis by (auto simp: o2_def cov)
  qed
  have "values_fill (iv # ivs) start end1 o1 ! i =
          (case last_covering ivs start end1 (start + int i) of
             None \<Rightarrow> o2 ! i
           | Some (a, b, v) \<Rightarrow> v)"
    using Cons.IH [OF len] by (simp only: step)
  also have "\<dots> = (case last_covering (iv # ivs) start end1 (start + int i) of
                      None \<Rightarrow> o1 ! i
                    | Some (a, b, v) \<Rightarrow> v)"
    using o2i by (simp add: last_covering_def find_snoc iv split: option.splits)
  finally show ?case .
qed

lemma rasterize_refines_spec: "rasterize ivs start end1 = rasterize_spec ivs start end1"
  by (rule nth_equalityI)
     (simp_all add: rasterize_def rasterize_spec_def length_values_fill nth_values_fill
        split: option.splits)

text \<open>An interval whose span, clipped to the window, is empty leaves the array as it is.\<close>

lemma values_fill_skips_empty_clip:
  "min b end1 \<le> max a start \<Longrightarrow>
   values_fill ((a, b, v) # rest) start end1 o1 = values_fill rest start end1 o1"
  by (auto simp: Let_def)

text \<open>
  C7. For a chromosome of the session and a window \<open>[start, end)\<close> with \<open>start < end\<close>
  (\<open>end\<close> not 0, which the method reads as "to the end of the chromosome"), whatever list
  the query layer returns, values returns an array of length \<open>end - start\<close> whose slot \<open>i\<close>
  holds the value of the last interval, in input order, whose clipped span covers
  position \<open>start + i\<close>, and NaN when no interval covers it (an interval whose clipped span
  is empty covers nothing); an empty list gives an array of NaN only.
\<close>

theorem values_dense_last_write_wins:
  assumes "chromsDict self = Some d" and "d chrom = Some len"
    and "start < end1" and "end1 \<noteq> 0"
    and "intervals lib srv self chrom start end1 = Some (Inr ivs)"
  shows "\<exists>o1. values lib srv self chrom start end1 = Some (Inr o1)
           \<and> length o1 = nat (end1 - start)
           \<and> (\<forall>i < nat (end1 - start).
                 o1 ! i = (case last_covering ivs start end1 (start + int i) of
                             None \<Rightarrow> NaN
                           | Some (a, b, v) \<Rightarrow> v))
           \<and> (ivs = [] \<longrightarrow> o1 = replicate (nat (end1 - start)) NaN)"
proof -
  have r: "check_range self chrom start end1 = Inr end1"
    using assms by (simp add: check_range_def)
  have v: "values lib srv self chrom start end1 = Some (Inr (rasterize ivs start end1))"
    using assms(5) by (simp add: values_def r)
  have l: "length (rasterize ivs start end1) = nat (end1 - start)"
    by (simp add: rasterize_def length_values_fill)
  have n: "\<forall>i < nat (end1 - start).
             rasterize ivs start end1 ! i =
               (case last_covering ivs start end1 (start + int i) of
                  None \<Rightarrow> NaN
                | Some (a, b, v) \<Rightarrow> v)"
    by (simp add: rasterize_refines_spec rasterize_spec_def)
  have e: "ivs = [] \<longrightarrow> rasterize ivs start end1 = replicate (nat (end1 - start)) NaN"
    by (simp add: rasterize_def)
  from v l n e show ?thesis by blast
qed

text \<open>
  The example of the specification: the single interval (10, 20, 5.0) over \<open>[0, 100)\<close>
  gives 5.0 at the indices 10 to 19 and NaN everywhere else.
\<close>

theorem values_dense_last_write_wins_witness:
  "\<exists>o1. values example_lib example_server example_session ''chr1'' 0 100 = Some (Inr o1)
        \<and> length o1 = 100
        \<and> (\<forall>i < 100. o1 ! i = (if 10 \<le> i \<and> i < 20 then Num 5 else NaN))"
proof -
  have d: "chromsDict example_session = Some (map_of (rev [(''chr1'', 1000)]))"
    by (simp add: example_session_def)
  have c: "map_of (rev [(''chr1'', 1000::int)]) ''chr1'' = Some 1000"
    by simp
  have i: "intervals example_lib example_server example_session ''chr1'' 0 100
             = Some (Inr [(10, 20, Num 5)])"
    by (simp add: intervals_def check_range_def fetch_intervals_def example_server_def
        example_session_def poll.simps example_payload_def example_lib_def digits_int_def
        digits_float_def digit_of_def)
  have k: "\<And>i. (case last_covering [(10, 20, Num 5)] 0 100 (int i) of
                   None \<Rightarrow> NaN | Some (a, b, v) \<Rightarrow> v)
                = (if 10 \<le> i \<and> i < 20 then Num 5 else NaN)"
    by (auto simp: last_covering_def covers_def)
  from values_dense_last_write_wins [OF d c _ _ i]
  obtain o1 where "values example_lib example_server example_session ''chr1'' 0 100 = Some (Inr o1)"
    and "length o1 = 100"
    and "\<forall>i < 100. o1 ! i = (if 10 \<le> i \<and> i < 20 then Num 5 else NaN)"
    by (auto simp: k)
  then show ?thesis by blast
qed

subsection \<open>chroms\<close>

text \<open>
  C10. On every session \<open>__init__\<close> returns, chroms does not raise: without an argument it
  returns the dictionary of chromosome lengths, for a chromosome of the dictionary its
  length, for any other chromosome None; values and intervals raise for such a
  chromosome, whatever the server and the range.
\<close>

theorem chroms_never_raises:
  assumes "deepBlue_init srv sample0 url0 key = Inr self"
  shows "\<exists>d. chromsDict self = Some d
           \<and> chroms self None = Inr (ChromsDict d)
           \<and> (\<forall>c len. d c = Some len \<longrightarrow> chroms self (Some c) = Inr (ChromLength len))
           \<and> (\<forall>c. d c = None \<longrightarrow>
                  chroms self (Some c) = Inr PyNone
                \<and> values lib srv' self c start end0 = Some (Inl (InvalidChromosome c))
                \<and> intervals lib srv' self c start end0 = Some (Inl (InvalidChromosome c)))"
proof -
  from assms obtain d where d: "chromsDict self = Some d"
    by (auto simp: deepBlue_init_def getEID_def getGenome_def getChroms_def
        split: sum.splits prod.splits response.splits list.splits option.splits if_splits)
  show ?thesis
    by (rule exI [of _ d])
       (simp add: d chroms_def values_def intervals_def check_range_def)
qed

theorem chroms_never_raises_witness:
  "chroms example_session None = Inr (ChromsDict (map_of (rev [(''chr1'', 1000)])))
   \<and> chroms example_session (Some ''chr1'') = Inr (ChromLength 1000)
   \<and> chroms example_session (Some ''chrX'') = Inr PyNone
   \<and> values example_lib example_server example_session ''chrX'' 0 100
        = Some (Inl (InvalidChromosome ''chrX''))"
proof -
  have i: "deepBlue_init example_server ''s1'' ''u'' ''k'' = Inr example_session"
    by (simp add: deepBlue_init_def getEID_def getGenome_def getChroms_def
        example_server_def example_session_def)
  have d: "chromsDict example_session = Some (map_of (rev [(''chr1'', 1000)]))"
    by (simp add: example_session_def)
  from chroms_never_raises [OF i, of example_lib example_server 0 100]
  show ?thesis by (simp add: d)
qed

subsection \<open>Opening a session\<close>

lemma find_first_match:
  "list_all (\<lambda>x. \<not> P x) pre \<Longrightarrow> P x \<Longrightarrow> find P (pre @ x # post) = Some x"
  by (induction pre) auto

lemma find_no_match: "list_all (\<lambda>x. \<not> P x) xs \<Longrightarrow> find P xs = None"
  by (induction xs) auto

text \<open>
  C4. The claim as stated (opening fails when the search result holds more than one entry
  whose name equals the sample) does not hold: the example server returns two entries
  named "s1", and the session is opened on the first of them, "e1".
\<close>

theorem open_ambiguous_counterexample:
  "deepBlue_init example_server ''s1'' ''u'' ''k'' = Inr example_session"
  by (simp add: deepBlue_init_def getEID_def getGenome_def getChroms_def
      example_server_def example_session_def)

text \<open>
  C4, amended. Opening a session fails with the error of line 109 (no experiment for the
  sample) when the search result holds no entry whose name equals the sample name.
  When it holds one or more such entries, the first in result order is taken and the
  others are ignored: opening then does exactly what it does when the search returns
  that entry alone, and no ambiguity is reported.
\<close>

theorem open_takes_first_exact_match:
  assumes "srv_search srv sample0 ''experiments'' key = Okay resps"
  shows "(list_all (\<lambda>resp. snd resp \<noteq> sample0) resps \<longrightarrow>
            deepBlue_init srv sample0 url0 key = Inl NoExperiment)
       \<and> (\<forall>pre eid post.
            resps = pre @ (eid, sample0) # post
            \<and> list_all (\<lambda>resp. snd resp \<noteq> sample0) pre \<longrightarrow>
            deepBlue_init srv sample0 url0 key =
              deepBlue_init (srv\<lparr>srv_search := \<lambda>name kind k. Okay [(eid, sample0)]\<rparr>)
                sample0 url0 key)"
proof (intro conjI allI impI)
  assume "list_all (\<lambda>resp. snd resp \<noteq> sample0) resps"
  then have "find (\<lambda>resp. snd resp = sample0) resps = None"
    using find_no_match [of "\<lambda>resp. snd resp = sample0" resps] by simp
  then show "deepBlue_init srv sample0 url0 key = Inl NoExperiment"
    using assms by (simp add: deepBlue_init_def getEID_def)
next
  fix pre eid post
  assume a: "resps = pre @ (eid, sample0) # post
             \<and> list_all (\<lambda>resp. snd resp \<noteq> sample0) pre"
  then have "find (\<lambda>resp. snd resp = sample0) resps = Some (eid, sample0)"
    using find_first_match [of "\<lambda>resp. snd resp = sample0" pre "(eid, sample0)" post] by simp
  then show "deepBlue_init srv sample0 url0 key =
              deepBlue_init (srv\<lparr>srv_search := \<lambda>name kind k. Okay [(eid, sample0)]\<rparr>)
                sample0 url0 key"
    using assms
    by (simp add: deepBlue_init_def getEID_def getChroms_def
        split: response.splits list.splits sum.splits prod.splits)
qed

text \<open>Both cases on the example servers: no entry named "s1", and two of them.\<close>

theorem open_takes_first_exact_match_witness:
  "deepBlue_init nomatch_server ''s1'' ''u'' ''k'' = Inl NoExperiment
   \<and> deepBlue_init example_server ''s1'' ''u'' ''k'' =
       deepBlue_init (example_server\<lparr>srv_search := \<lambda>name kind k. Okay [(''e1'', ''s1'')]\<rparr>)
         ''s1'' ''u'' ''k''"
proof -
  have n: "srv_search nomatch_server ''s1'' ''experiments'' ''k''
             = Okay [(''e3'', ''s10''), (''e4'', ''s2'')]"
    by (simp add: nomatch_server_def example_server_def)
  have e: "srv_search example_server ''s1'' ''experiments'' ''k''
             = Okay [(''e1'', ''s1''), (''e2'', ''s1'')]"
    by (simp add: example_server_def)
  have "deepBlue_init nomatch_server ''s1'' ''u'' ''k'' = Inl NoExperiment"
    using open_takes_first_exact_match [OF n, of "''u''"] by simp
  moreover have "deepBlue_init example_server ''s1'' ''u'' ''k'' =
       deepBlue_init (example_server\<lparr>srv_search := \<lambda>name kind k. Okay [(''e1'', ''s1'')]\<rparr>)
         ''s1'' ''u'' ''k''"
    using open_takes_first_exact_match [OF e, of "''u''"]
    by (elim conjE allE [of _ "[]"] allE [of _ "''e1''"] allE [of _ "[(''e2'', ''s1'')]"]) simp
  ultimately show ?thesis by simp
qed

subsection \<open>The query protocol\<close>

text \<open>
  The polling loop ends at the first poll that reports "done" or "failed", after one
  \<open>sleep\<close> for each earlier poll.
\<close>

lemma poll_reaches_final_state:
  assumes "\<forall>m. k \<le> m \<and> m < n \<longrightarrow>
             (\<exists>st. request_state (srv_info srv (Some reqID) key m) = Inr st
                   \<and> st \<noteq> ''done'' \<and> st \<noteq> ''failed'')"
    and "request_state (srv_info srv (Some reqID) key n) = Inr fin"
    and "fin = ''done'' \<or> fin = ''failed''"
    and "k \<le> n"
  shows "poll srv reqID key k = Some (Inr (n, fin))"
  using assms
proof (induction "n - k" arbitrary: k)
  case 0
  then have "k = n" by simp
  with "0.prems" show ?case
    by (subst poll.simps) auto
next
  case (Suc d)
  then have lt: "k < n" by simp
  with Suc.prems(1) obtain st where
    st: "request_state (srv_info srv (Some reqID) key k) = Inr st"
        "st \<noteq> ''done''" "st \<noteq> ''failed''"
    by blast
  have "poll srv reqID key (Suc k) = Some (Inr (n, fin))"
  proof (rule Suc.hyps(1))
    show "d = n - Suc k" using Suc.hyps(2) by simp
    show "\<forall>m. Suc k \<le> m \<and> m < n \<longrightarrow>
             (\<exists>st. request_state (srv_info srv (Some reqID) key m) = Inr st
                   \<and> st \<noteq> ''done'' \<and> st \<noteq> ''failed'')"
      using Suc.prems(1) by simp
    show "Suc k \<le> n" using lt by simp
  qed (use Suc.prems in simp_all)
  then show ?case
    using st by (subst poll.simps) simp
qed

text \<open>
  C8. The claim as stated (once the polled state is "failed", the operation raises an
  error instead of returning data) does not hold: the code never looks at which final
  state ended the loop. Against a server that reports "failed" at the third poll and
  still answers the payload request with status "okay", intervals returns the parsed
  payload.
\<close>

theorem failed_state_okay_payload_counterexample:
  "poll failed_okay_server ''r1'' ''k'' 0 = Some (Inr (2, ''failed''))
   \<and> intervals example_lib failed_okay_server example_session ''chr1'' 0 100
       = Some (Inr [(10, 20, Num 5)])"
  by (simp add: intervals_def check_range_def fetch_intervals_def example_server_def
      failed_okay_server_def example_session_def poll.simps example_payload_def
      example_lib_def digits_int_def digits_float_def digit_of_def)

text \<open>
  C8, amended. After the retrieval request has been submitted, the client polls its state,
  sleeping 0.1 s before each further poll, until the state is "done" or "failed". On
  either final state it requests the payload; the operation raises the error of line 242,
  which carries the server's message, exactly when that payload request does not have
  status "okay", and otherwise returns the parsed payload. The final state being "failed"
  raises nothing by itself.
\<close>

theorem failed_state_fetches_payload:
  assumes "check_range self chrom start end0 = Inr end1"
    and "srv_select_experiments srv (sample self) (Some chrom) (Some start) (Some end1)
           (userKey self) = Okay (Some qid)"
    and "qid \<noteq> []"
    and "srv_get_regions srv qid ''START,END,VALUE'' (userKey self) = Okay reqID"
    and "\<forall>m < n. \<exists>st. request_state (srv_info srv (Some reqID) (userKey self) m) = Inr st
                       \<and> st \<noteq> ''done'' \<and> st \<noteq> ''failed''"
    and "request_state (srv_info srv (Some reqID) (userKey self) n) = Inr fin"
    and "fin = ''done'' \<or> fin = ''failed''"
  shows "poll srv reqID (userKey self) 0 = Some (Inr (n, fin))
       \<and> intervals lib srv self chrom start end0 =
           (case srv_get_request_data srv reqID (userKey self) of
              NotOkay msg \<Rightarrow> Some (Inl (RequestDataError msg))
            | Okay resp \<Rightarrow> Some (parse_intervals lib (split_on (CHR 0x0A) resp) []))"
proof -
  have p: "poll srv reqID (userKey self) 0 = Some (Inr (n, fin))"
    using assms(5-7) by (intro poll_reaches_final_state) auto
  show ?thesis
    using assms(1-4) p
    by (simp add: intervals_def fetch_intervals_def split: response.splits)
qed

text \<open>
  On the server that reports "failed" at the third poll and answers the payload request
  with a message: two sleeps, then the error carrying that message.
\<close>

theorem failed_state_fetches_payload_witness:
  "poll failed_error_server ''r1'' ''k'' 0 = Some (Inr (2, ''failed''))
   \<and> intervals example_lib failed_error_server example_session ''chr1'' 0 100
       = Some (Inl (RequestDataError ''request failed''))"
proof -
  have r: "check_range example_session ''chr1'' 0 100 = Inr 100"
    by (simp add: check_range_def example_session_def)
  have s: "srv_select_experiments failed_error_server (sample example_session) (Some ''chr1'')
             (Some 0) (Some 100) (userKey example_session) = Okay (Some ''q1'')"
    by (simp add: failed_error_server_def failed_okay_server_def example_server_def)
  have g: "srv_get_regions failed_error_server ''q1'' ''START,END,VALUE''
             (userKey example_session) = Okay ''r1''"
    by (simp add: failed_error_server_def failed_okay_server_def example_server_def)
  have w: "\<forall>m < 2. \<exists>st. request_state (srv_info failed_error_server (Some ''r1'')
                             (userKey example_session) m) = Inr st
                        \<and> st \<noteq> ''done'' \<and> st \<noteq> ''failed''"
    by (simp add: failed_error_server_def failed_okay_server_def example_server_def)
  have f: "request_state (srv_info failed_error_server (Some ''r1'')
             (userKey example_session) 2) = Inr ''failed''"
    by (simp add: failed_error_server_def failed_okay_server_def example_server_def)
  have d: "srv_get_request_data failed_error_server ''r1'' ''k''
             = NotOkay ''request failed''"
    by (simp add: failed_error_server_def)
  have k: "userKey example_session = ''k''"
    by (simp add: example_session_def)
  from failed_state_fetches_payload [OF r s _ g w f, of example_lib]
  show ?thesis by (simp add: d k)
qed

end
